theory Spec2Isabelle
  imports Main "HOL-Library.Word"
begin

section \<open>thread\_utils: BlockingQueue and BlockingSlot (blocking\_queue.h)\<close>

text \<open>
  The header defines two class templates. Each bundles a mutex, the protected data (a
  \<^verbatim>\<open>std::deque<T>\<close> or a \<^verbatim>\<open>std::optional<T>\<close>) and a semaphore. Every member function
  is embedded as a function from the object's state to its result and its new state.

  The only blocking calls are \<^verbatim>\<open>pop\<close> and \<^verbatim>\<open>get\<close>: they wait on the semaphore first,
  outside the mutex, and take the mutex afterwards. Two readings of them are given:
  \<^item> the call as a whole, run while no other thread touches the object (\<open>pop\<close>,
    \<open>slot_get\<close>);
  \<^item> the call as two atomic steps, the end of the semaphore wait and the section under
    the mutex, between which steps of other threads may fall (\<open>queue_step\<close>,
    \<open>slot_step\<close>).
  Every other member function runs wholly under the mutex and never waits, so it is one
  atomic step in both readings. A wait that ends between the container update and the
  \<^verbatim>\<open>post()\<close> of a \<^verbatim>\<open>push\<close> reads the count before the post and touches nothing else, so
  it is the same as the wait ending before that \<^verbatim>\<open>push\<close>.
\<close>

subsection \<open>Values shared by both classes\<close>

text \<open>\<^verbatim>\<open>int64_t timeout_ms\<close>: a 64-bit word, compared as a signed number.\<close>

type_synonym int64_t = "64 word"

text \<open>
  What goes wrong without an error value in C++:
  \<^item> \<open>FrontOfEmpty\<close>: \<^verbatim>\<open>front()\<close> and \<^verbatim>\<open>pop_front()\<close> on an empty deque (undefined
    behaviour);
  \<^item> \<open>InvalidPosition\<close>: \<^verbatim>\<open>std::deque::emplace\<close> at a position that is not one of the
    deque (undefined behaviour);
  \<^item> \<open>NoMatchingCall\<close>: a member call that has no viable overload for the element type, so
    that the member function cannot be instantiated.
\<close>

datatype fault = FrontOfEmpty | InvalidPosition | NoMatchingCall

text \<open>
  How a call of \<^verbatim>\<open>pop\<close> or \<^verbatim>\<open>get\<close> ends when no other thread runs meanwhile: it returns a
  \<^verbatim>\<open>std::optional<T>\<close>, or it stays in the semaphore wait for good, or it runs into a
  fault.
\<close>

datatype 'a outcome = Returned "'a option" | Blocked | Faulted fault

text \<open>How a schedule of atomic steps ends: in a state, at a step that cannot happen in
  the state reached, or at a fault.\<close>

datatype 'c run = Ok 'c | Disabled | Fault fault

subsection \<open>The semaphores\<close>

text \<open>
  Modelled from the spec: \<^verbatim>\<open>semaphore.h\<close> with \<^verbatim>\<open>semaphore_t\<close> is not among the sources.
  The counting semaphore holds a non-negative count, initially zero; \<^verbatim>\<open>post()\<close> increments
  it.
\<close>

type_synonym semaphore_t = nat

definition post :: "semaphore_t \<Rightarrow> semaphore_t" where
  "post c = Suc c"

text \<open>
  Modelled from the spec: \<^verbatim>\<open>wait()\<close> blocks until the count is positive, then decrements
  it. \<open>None\<close>: the count is zero and the caller stays blocked.
\<close>

definition wait :: "semaphore_t \<Rightarrow> semaphore_t option" where
  "wait c = (if 0 < c then Some (c - 1) else None)"

text \<open>
  Modelled from the spec: \<^verbatim>\<open>wait_for(timeout_ms)\<close> is \<^verbatim>\<open>wait()\<close>, but returns false without
  decrementing when the timeout elapses first. Time is not modelled: the call ends with
  true when the count is positive and with false when it is zero, that is, when the
  semaphore has not become available during the wait.
\<close>

definition wait_for :: "int64_t \<Rightarrow> semaphore_t \<Rightarrow> bool \<times> semaphore_t" where
  "wait_for timeout_ms c = (if 0 < c then (True, c - 1) else (False, c))"

text \<open>
  Modelled from the spec: \<^verbatim>\<open>binary_semaphore_t\<close> is not among the sources either. Its
  state is signaled (\<open>True\<close>) or unsignaled (\<open>False\<close>), initially unsignaled; \<^verbatim>\<open>post()\<close>
  sets it signaled and returns whether it was unsignaled before.
\<close>

type_synonym binary_semaphore_t = bool

definition binary_post :: "binary_semaphore_t \<Rightarrow> bool \<times> binary_semaphore_t" where
  "binary_post b = (\<not> b, True)"

text \<open>Modelled from the spec: \<^verbatim>\<open>wait()\<close> blocks until signaled, then clears the signal.\<close>

definition binary_wait :: "binary_semaphore_t \<Rightarrow> binary_semaphore_t option" where
  "binary_wait b = (if b then Some False else None)"

text \<open>Modelled from the spec: \<^verbatim>\<open>wait_for\<close> returns false and changes nothing when the
  semaphore is not signaled within the timeout.\<close>

definition binary_wait_for :: "int64_t \<Rightarrow> binary_semaphore_t \<Rightarrow> bool \<times> binary_semaphore_t" where
  "binary_wait_for timeout_ms b = (if b then (True, False) else (False, b))"

subsection \<open>BlockingQueue\<close>

text \<open>
  \<^verbatim>\<open>std::deque<T> mQueue\<close> is a list, front first; \<^verbatim>\<open>mMutex\<close> has no state of its own
  here: a section under a \<^verbatim>\<open>lock_guard\<close> is one atomic step.
\<close>

record 'a BlockingQueue =
  mQueue :: "'a list"
  mQueueSemaphore :: semaphore_t

text \<open>\<^verbatim>\<open>BlockingQueue() {}\<close>: an empty deque and a semaphore with count zero.\<close>

definition new_queue :: "'a BlockingQueue" where
  "new_queue = \<lparr>mQueue = [], mQueueSemaphore = 0\<rparr>"

text \<open>
  \<^verbatim>\<open>push(const T& element, bool front = false)\<close>: \<^verbatim>\<open>push_front\<close> or \<^verbatim>\<open>push_back\<close>, then
  \<^verbatim>\<open>post()\<close>.
\<close>

definition push :: "'a \<Rightarrow> bool \<Rightarrow> 'a BlockingQueue \<Rightarrow> 'a BlockingQueue" where
  "push element front q =
     (let q1 = (if front then q\<lparr>mQueue := element # mQueue q\<rparr>
                else q\<lparr>mQueue := mQueue q @ [element]\<rparr>)
      in q1\<lparr>mQueueSemaphore := post (mQueueSemaphore q1)\<rparr>)"

text \<open>
  What \<^verbatim>\<open>emplace\<close> needs to know of the element type \<^verbatim>\<open>T\<close>. Its body is
  \<^verbatim>\<open>mQueue.emplace(element)\<close>, and the only \<^verbatim>\<open>emplace\<close> of \<^verbatim>\<open>std::deque<T>\<close> is
  \<^verbatim>\<open>iterator emplace(const_iterator pos, Args&&... args)\<close>: its first argument is the
  position to insert before, the others are the constructor's arguments. Called with
  \<^verbatim>\<open>element\<close> alone, the call takes \<^verbatim>\<open>element\<close> as the position and constructs the new
  element from no argument. So the call has a viable overload only for a \<^verbatim>\<open>T\<close> that
  converts implicitly to \<^verbatim>\<open>std::deque<T>::const_iterator\<close>:
  \<^item> \<open>to_const_iterator\<close> is that conversion where \<^verbatim>\<open>T\<close> has one (a position is the index
    it stands for), and \<open>None\<close> where it has none, as for \<^verbatim>\<open>uint64_t\<close>;
  \<^item> \<open>value_initialized\<close> is \<^verbatim>\<open>T()\<close>.
\<close>

record 'a element_type =
  to_const_iterator :: "('a \<Rightarrow> nat) option"
  value_initialized :: 'a

text \<open>\<^verbatim>\<open>std::deque::emplace(pos, args...)\<close> with the element already constructed: inserts
  before \<open>pos\<close>, which must be a position of the deque (\<open>length xs\<close> is \<^verbatim>\<open>end()\<close>).\<close>

definition deque_emplace :: "nat \<Rightarrow> 'a \<Rightarrow> 'a list \<Rightarrow> fault + 'a list" where
  "deque_emplace pos x xs =
     (if pos \<le> length xs then Inr (take pos xs @ x # drop pos xs) else Inl InvalidPosition)"

text \<open>\<^verbatim>\<open>emplace(T&& element)\<close>: \<^verbatim>\<open>mQueue.emplace(element)\<close>, then \<^verbatim>\<open>post()\<close>.\<close>

definition emplace :: "'a element_type \<Rightarrow> 'a \<Rightarrow> 'a BlockingQueue \<Rightarrow> fault + 'a BlockingQueue" where
  "emplace T element q =
     (case to_const_iterator T of
        None \<Rightarrow> Inl NoMatchingCall
      | Some conv \<Rightarrow>
          (case deque_emplace (conv element) (value_initialized T) (mQueue q) of
             Inl f \<Rightarrow> Inl f
           | Inr xs \<Rightarrow> Inr (q\<lparr>mQueue := xs, mQueueSemaphore := post (mQueueSemaphore q)\<rparr>)))"

text \<open>
  The section of \<^verbatim>\<open>pop\<close> under the mutex: \<^verbatim>\<open>std::move(mQueue.front())\<close>, then
  \<^verbatim>\<open>pop_front()\<close>. The source does not test for emptiness.
\<close>

definition pop_locked :: "'a BlockingQueue \<Rightarrow> fault + ('a \<times> 'a BlockingQueue)" where
  "pop_locked q =
     (case mQueue q of
        [] \<Rightarrow> Inl FrontOfEmpty
      | x # xs \<Rightarrow> Inr (x, q\<lparr>mQueue := xs\<rparr>))"

text \<open>The same section as the end of a call: the element found is returned as an engaged
  \<^verbatim>\<open>std::optional<T>\<close>.\<close>

definition pop_finish :: "'a BlockingQueue \<Rightarrow> 'a outcome \<times> 'a BlockingQueue" where
  "pop_finish q =
     (case pop_locked q of
        Inl f \<Rightarrow> (Faulted f, q)
      | Inr (x, q') \<Rightarrow> (Returned (Some x), q'))"

text \<open>
  \<^verbatim>\<open>pop(int64_t timeout_ms = -1)\<close>, run with no other thread at work: \<^verbatim>\<open>wait_for\<close> when
  \<^verbatim>\<open>timeout_ms > 0\<close>, \<^verbatim>\<open>wait\<close> otherwise, then the section under the mutex.
\<close>

definition pop :: "int64_t \<Rightarrow> 'a BlockingQueue \<Rightarrow> 'a outcome \<times> 'a BlockingQueue" where
  "pop timeout_ms q =
     (if 0 <s timeout_ms then
        (let (ok, c) = wait_for timeout_ms (mQueueSemaphore q) in
         if \<not> ok then (Returned None, q\<lparr>mQueueSemaphore := c\<rparr>)
         else pop_finish (q\<lparr>mQueueSemaphore := c\<rparr>))
      else
        (case wait (mQueueSemaphore q) of
           None \<Rightarrow> (Blocked, q)
         | Some c \<Rightarrow> pop_finish (q\<lparr>mQueueSemaphore := c\<rparr>)))"

text \<open>\<^verbatim>\<open>clear()\<close>: \<^verbatim>\<open>mQueue.clear()\<close>; the semaphore is not touched.\<close>

definition clear :: "'a BlockingQueue \<Rightarrow> 'a BlockingQueue" where
  "clear q = q\<lparr>mQueue := []\<rparr>"

subsubsection \<open>Threads on one queue\<close>

text \<open>
  The atomic steps of the threads that share one queue:
  \<^item> \<open>Push v front\<close>, \<open>Emplace v\<close>, \<open>Clear\<close>: a whole call;
  \<^item> \<open>PopWait t\<close>: the semaphore wait of a call \<^verbatim>\<open>pop(t)\<close> ends, with the semaphore
    acquired or, for \<open>t > 0\<close>, with a timeout, on which the call returns
    \<^verbatim>\<open>std::nullopt\<close>;
  \<^item> \<open>PopLocked\<close>: a call that has acquired the semaphore runs its section under the
    mutex and returns.
  \<open>woken\<close> counts the calls of \<^verbatim>\<open>pop\<close> between their two steps, \<open>returned\<close> lists what
  the finished calls of \<^verbatim>\<open>pop\<close> returned, oldest first.
\<close>

datatype 'a queue_event = Push 'a bool | Emplace 'a | PopWait int64_t | PopLocked | Clear

record 'a queue_threads =
  shared :: "'a BlockingQueue"
  woken :: nat
  returned :: "'a option list"

definition queue_start :: "'a queue_threads" where
  "queue_start = \<lparr>shared = new_queue, woken = 0, returned = []\<rparr>"

fun queue_step :: "'a element_type \<Rightarrow> 'a queue_event \<Rightarrow> 'a queue_threads \<Rightarrow> 'a queue_threads run" where
  "queue_step T (Push v front) c = Ok (c\<lparr>shared := push v front (shared c)\<rparr>)"
| "queue_step T (Emplace v) c =
     (case emplace T v (shared c) of
        Inl f \<Rightarrow> Fault f
      | Inr q \<Rightarrow> Ok (c\<lparr>shared := q\<rparr>))"
| "queue_step T (PopWait t) c =
     (if 0 <s t then
        (let (ok, n) = wait_for t (mQueueSemaphore (shared c)) in
         if \<not> ok then Ok (c\<lparr>shared := (shared c)\<lparr>mQueueSemaphore := n\<rparr>,
                            returned := returned c @ [None]\<rparr>)
         else Ok (c\<lparr>shared := (shared c)\<lparr>mQueueSemaphore := n\<rparr>, woken := Suc (woken c)\<rparr>))
      else
        (case wait (mQueueSemaphore (shared c)) of
           None \<Rightarrow> Disabled
         | Some n \<Rightarrow> Ok (c\<lparr>shared := (shared c)\<lparr>mQueueSemaphore := n\<rparr>, woken := Suc (woken c)\<rparr>)))"
| "queue_step T PopLocked c =
     (if woken c = 0 then Disabled
      else
        (case pop_locked (shared c) of
           Inl f \<Rightarrow> Fault f
         | Inr (x, q) \<Rightarrow> Ok (c\<lparr>shared := q, woken := woken c - 1,
                                returned := returned c @ [Some x]\<rparr>)))"
| "queue_step T Clear c = Ok (c\<lparr>shared := clear (shared c)\<rparr>)"

fun queue_run :: "'a element_type \<Rightarrow> 'a queue_event list \<Rightarrow> 'a queue_threads \<Rightarrow> 'a queue_threads run" where
  "queue_run T [] c = Ok c"
| "queue_run T (e # es) c =
     (case queue_step T e c of
        Ok c' \<Rightarrow> queue_run T es c'
      | Disabled \<Rightarrow> Disabled
      | Fault f \<Rightarrow> Fault f)"

subsection \<open>BlockingSlot\<close>

record 'a BlockingSlot =
  mSlot :: "'a option"
  mSemaphore :: binary_semaphore_t

text \<open>\<^verbatim>\<open>BlockingSlot() : mMutex(), mSlot(std::nullopt), mSemaphore() {}\<close>\<close>

definition new_slot :: "'a BlockingSlot" where
  "new_slot = \<lparr>mSlot = None, mSemaphore = False\<rparr>"

text \<open>\<^verbatim>\<open>bool set(const T& value)\<close>: \<^verbatim>\<open>mSlot = value; return mSemaphore.post();\<close>\<close>

definition slot_set :: "'a \<Rightarrow> 'a BlockingSlot \<Rightarrow> bool \<times> 'a BlockingSlot" where
  "slot_set v s =
     (let s1 = s\<lparr>mSlot := Some v\<rparr>;
          (r, b) = binary_post (mSemaphore s1)
      in (r, s1\<lparr>mSemaphore := b\<rparr>))"

text \<open>The section of \<^verbatim>\<open>get\<close> under the mutex: \<^verbatim>\<open>return mSlot;\<close>\<close>

definition get_locked :: "'a BlockingSlot \<Rightarrow> 'a option" where
  "get_locked s = mSlot s"

text \<open>
  \<^verbatim>\<open>get(int64_t timeout_ms = -1)\<close>, run with no other thread at work: \<^verbatim>\<open>wait\<close> when
  \<^verbatim>\<open>timeout_ms < 0\<close>, \<^verbatim>\<open>wait_for\<close> otherwise, then the section under the mutex.
\<close>

definition slot_get :: "int64_t \<Rightarrow> 'a BlockingSlot \<Rightarrow> 'a outcome \<times> 'a BlockingSlot" where
  "slot_get timeout_ms s =
     (if timeout_ms <s 0 then
        (case binary_wait (mSemaphore s) of
           None \<Rightarrow> (Blocked, s)
         | Some b \<Rightarrow> (Returned (get_locked (s\<lparr>mSemaphore := b\<rparr>)), s\<lparr>mSemaphore := b\<rparr>))
      else
        (let (ok, b) = binary_wait_for timeout_ms (mSemaphore s) in
         if \<not> ok then (Returned None, s\<lparr>mSemaphore := b\<rparr>)
         else (Returned (get_locked (s\<lparr>mSemaphore := b\<rparr>)), s\<lparr>mSemaphore := b\<rparr>)))"

text \<open>\<^verbatim>\<open>clear()\<close>: \<^verbatim>\<open>mSlot = std::nullopt\<close>; the semaphore is not touched.\<close>

definition slot_clear :: "'a BlockingSlot \<Rightarrow> 'a BlockingSlot" where
  "slot_clear s = s\<lparr>mSlot := None\<rparr>"

subsubsection \<open>Threads on one slot\<close>

text \<open>
  The atomic steps on a shared slot: \<open>Set v\<close> and \<open>SlotClear\<close> are whole calls; \<open>GetWait t\<close>
  is the end of the semaphore wait of a call \<^verbatim>\<open>get(t)\<close> (acquired, or timed out for
  \<open>t \<ge> 0\<close>); \<open>GetLocked\<close> is the section under the mutex of a call that has acquired the
  semaphore. \<open>getting\<close> counts the calls of \<^verbatim>\<open>get\<close> between their two steps, \<open>got\<close> lists
  what the finished calls of \<^verbatim>\<open>get\<close> returned, oldest first.
\<close>

datatype 'a slot_event = Set 'a | GetWait int64_t | GetLocked | SlotClear

record 'a slot_threads =
  slot :: "'a BlockingSlot"
  getting :: nat
  got :: "'a option list"

definition slot_start :: "'a slot_threads" where
  "slot_start = \<lparr>slot = new_slot, getting = 0, got = []\<rparr>"

fun slot_step :: "'a slot_event \<Rightarrow> 'a slot_threads \<Rightarrow> 'a slot_threads run" where
  "slot_step (Set v) c = Ok (c\<lparr>slot := snd (slot_set v (slot c))\<rparr>)"
| "slot_step (GetWait t) c =
     (if t <s 0 then
        (case binary_wait (mSemaphore (slot c)) of
           None \<Rightarrow> Disabled
         | Some b \<Rightarrow> Ok (c\<lparr>slot := (slot c)\<lparr>mSemaphore := b\<rparr>, getting := Suc (getting c)\<rparr>))
      else
        (let (ok, b) = binary_wait_for t (mSemaphore (slot c)) in
         if \<not> ok then Ok (c\<lparr>slot := (slot c)\<lparr>mSemaphore := b\<rparr>, got := got c @ [None]\<rparr>)
         else Ok (c\<lparr>slot := (slot c)\<lparr>mSemaphore := b\<rparr>, getting := Suc (getting c)\<rparr>)))"
| "slot_step GetLocked c =
     (if getting c = 0 then Disabled
      else Ok (c\<lparr>getting := getting c - 1, got := got c @ [get_locked (slot c)]\<rparr>))"
| "slot_step SlotClear c = Ok (c\<lparr>slot := slot_clear (slot c)\<rparr>)"

fun slot_run :: "'a slot_event list \<Rightarrow> 'a slot_threads \<Rightarrow> 'a slot_threads run" where
  "slot_run [] c = Ok c"
| "slot_run (e # es) c =
     (case slot_step e c of
        Ok c' \<Rightarrow> slot_run es c'
      | Disabled \<Rightarrow> Disabled
      | Fault f \<Rightarrow> Fault f)"

text \<open>The value of the last \<open>Set\<close> of a schedule, \<open>None\<close> when it has none.\<close>

fun latest_set :: "'a slot_event list \<Rightarrow> 'a option" where
  "latest_set [] = None"
| "latest_set (e # es) =
     (case latest_set es of
        Some v \<Rightarrow> Some v
      | None \<Rightarrow> (case e of Set v \<Rightarrow> Some v | _ \<Rightarrow> None))"

text \<open>The steps of calls of \<^verbatim>\<open>get\<close>: they read the slot and never write it.\<close>

fun is_get_step :: "'a slot_event \<Rightarrow> bool" where
  "is_get_step (GetWait t) = True"
| "is_get_step GetLocked = True"
| "is_get_step (Set v) = False"
| "is_get_step SlotClear = False"

section \<open>Properties\<close>

lemmas semaphore_defs = post_def wait_def wait_for_def

lemmas binary_semaphore_defs = binary_post_def binary_wait_def binary_wait_for_def

subsection \<open>What one call does to the queue\<close>

lemma push_back: "mQueue (push v False q) = mQueue q @ [v]"
  by (simp add: push_def Let_def)

lemma push_front: "mQueue (push v True q) = v # mQueue q"
  by (simp add: push_def Let_def)

lemma push_counts:
  "length (mQueue (push v front q)) = Suc (length (mQueue q))
   \<and> mQueueSemaphore (push v front q) = Suc (mQueueSemaphore q)"
  by (simp add: push_def post_def Let_def)

lemma emplace_counts:
  assumes "emplace T v q = Inr q'"
  shows "length (mQueue q') = Suc (length (mQueue q))
         \<and> mQueueSemaphore q' = Suc (mQueueSemaphore q)"
  using assms
  by (auto simp: emplace_def deque_emplace_def post_def
      split: option.splits sum.splits if_splits)

lemma pop_counts:
  assumes "pop t q = (Returned (Some x), q')"
  shows "mQueue q = x # mQueue q' \<and> mQueueSemaphore q = Suc (mQueueSemaphore q')"
  using assms
  by (auto simp: pop_def pop_finish_def pop_locked_def semaphore_defs Let_def
      split: if_splits list.splits)

lemma clear_keeps_count: "mQueueSemaphore (clear q) = mQueueSemaphore q \<and> mQueue (clear q) = []"
  by (simp add: clear_def)

text \<open>
  The two readings of \<^verbatim>\<open>pop\<close> agree: a call run alone is its wait step followed by its
  step under the mutex, or its wait step alone when the wait times out; a call that
  stays blocked is a wait step that cannot happen.
\<close>

lemma pop_as_steps:
  "(pop t q = (Returned (Some x), q') \<longrightarrow>
      queue_run T [PopWait t, PopLocked] \<lparr>shared = q, woken = w, returned = r\<rparr>
        = Ok \<lparr>shared = q', woken = w, returned = r @ [Some x]\<rparr>)
   \<and> (pop t q = (Returned None, q') \<longrightarrow>
      queue_step T (PopWait t) \<lparr>shared = q, woken = w, returned = r\<rparr>
        = Ok \<lparr>shared = q', woken = w, returned = r @ [None]\<rparr>)
   \<and> (pop t q = (Blocked, q') \<longrightarrow>
      queue_step T (PopWait t) \<lparr>shared = q, woken = w, returned = r\<rparr> = Disabled)
   \<and> (pop t q = (Faulted f, q') \<longrightarrow>
      queue_run T [PopWait t, PopLocked] \<lparr>shared = q, woken = w, returned = r\<rparr> = Fault f)"
  by (auto simp: pop_def pop_finish_def pop_locked_def semaphore_defs Let_def
      split: if_splits list.splits)

subsection \<open>The count of the semaphore and the length of the deque\<close>

text \<open>
  Every step but \<open>Clear\<close> keeps the sum of the semaphore's count and the number of calls
  of \<^verbatim>\<open>pop\<close> that hold a signal equal to the number of stored elements.
\<close>

lemma queue_step_count:
  assumes "queue_step T e c = Ok c'" and "e \<noteq> Clear"
    and "mQueueSemaphore (shared c) + woken c = length (mQueue (shared c))"
  shows "mQueueSemaphore (shared c') + woken c' = length (mQueue (shared c'))"
  using assms
  by (cases e)
     (auto simp: push_def emplace_def deque_emplace_def semaphore_defs pop_locked_def Let_def
      split: if_splits option.splits sum.splits list.splits prod.splits)



lemma queue_step_front_safe:
  assumes "mQueueSemaphore (shared c) + woken c = length (mQueue (shared c))"
  shows "queue_step T e c \<noteq> Fault FrontOfEmpty"
  using assms
  by (cases e)
     (auto simp: emplace_def deque_emplace_def pop_locked_def Let_def
      split: if_splits option.splits sum.splits list.splits prod.splits)

text \<open>
  Without a \<^verbatim>\<open>clear()\<close> no call of \<^verbatim>\<open>pop\<close> finds the deque empty under the mutex,
  however the steps of the threads interleave.
\<close>

lemma no_clear_front_safe:
  assumes "Clear \<notin> set es"
    and "mQueueSemaphore (shared c) + woken c = length (mQueue (shared c))"
  shows "queue_run T es c \<noteq> Fault FrontOfEmpty"
  using assms
proof (induction es arbitrary: c)
  case Nil
  then show ?case by simp
next
  case (Cons e es)
  show ?case
  proof (cases "queue_step T e c")
    case (Ok c1)
    from Cons.prems(1) have ne: "e \<noteq> Clear" and nc: "Clear \<notin> set es"
      by auto
    have "mQueueSemaphore (shared c1) + woken c1 = length (mQueue (shared c1))"
      using queue_step_count [OF Ok ne Cons.prems(2)] .
    then show ?thesis
      using Cons.IH [OF nc] Ok by simp
  next
    case Disabled
    then show ?thesis by simp
  next
    case (Fault f)
    with queue_step_front_safe [OF Cons.prems(2), of T e] show ?thesis
      by simp
  qed
qed

subsection \<open>What one call does to the slot\<close>

lemma slot_set_effect:
  "slot_set v s = (\<not> mSemaphore s, \<lparr>mSlot = Some v, mSemaphore = True\<rparr>)"
  by (simp add: slot_set_def binary_post_def Let_def)

lemma slot_clear_effect: "slot_clear s = \<lparr>mSlot = None, mSemaphore = mSemaphore s\<rparr>"
  by (simp add: slot_clear_def)

text \<open>The two readings of \<^verbatim>\<open>get\<close> agree, as those of \<^verbatim>\<open>pop\<close> do.\<close>

lemma slot_get_as_steps:
  "(slot_get t s = (Returned x, s') \<and> mSemaphore s \<longrightarrow>
      slot_run [GetWait t, GetLocked] \<lparr>slot = s, getting = w, got = r\<rparr>
        = Ok \<lparr>slot = s', getting = w, got = r @ [x]\<rparr>)
   \<and> (slot_get t s = (Returned x, s') \<and> \<not> mSemaphore s \<longrightarrow>
      slot_step (GetWait t) \<lparr>slot = s, getting = w, got = r\<rparr>
        = Ok \<lparr>slot = s', getting = w, got = r @ [None]\<rparr> \<and> x = None)
   \<and> (slot_get t s = (Blocked, s') \<longrightarrow>
      slot_step (GetWait t) \<lparr>slot = s, getting = w, got = r\<rparr> = Disabled)"
  by (auto simp: slot_get_def get_locked_def binary_semaphore_defs Let_def
      split: if_splits)

subsection \<open>The stored value and the last set\<close>

lemma slot_run_append:
  "slot_run (es @ fs) c =
     (case slot_run es c of
        Ok c' \<Rightarrow> slot_run fs c'
      | Disabled \<Rightarrow> Disabled
      | Fault f \<Rightarrow> Fault f)"
  by (induction es arbitrary: c) (auto split: run.splits)

lemma latest_set_snoc:
  "latest_set (es @ [e]) = (case e of Set v \<Rightarrow> Some v | _ \<Rightarrow> latest_set es)"
  by (induction es) (auto split: option.splits slot_event.splits)

text \<open>
  Without a \<^verbatim>\<open>clear()\<close> the slot holds the value of the last \<^verbatim>\<open>set\<close>, and a pending
  signal, or a call of \<^verbatim>\<open>get\<close> that has consumed one, means that there was a \<^verbatim>\<open>set\<close>.
\<close>

lemma slot_step_latest:
  assumes "slot_step e c = Ok c'" and "e \<noteq> SlotClear"
    and "mSlot (slot c) = latest_set es"
    and "mSemaphore (slot c) \<or> 0 < getting c \<longrightarrow> latest_set es \<noteq> None"
  shows "mSlot (slot c') = latest_set (es @ [e])
         \<and> (mSemaphore (slot c') \<or> 0 < getting c' \<longrightarrow> latest_set (es @ [e]) \<noteq> None)"
  using assms
  by (cases e)
     (auto simp: latest_set_snoc slot_set_def binary_semaphore_defs Let_def
      split: if_splits option.splits prod.splits)

lemma slot_run_latest:
  assumes "slot_run es slot_start = Ok c" and "SlotClear \<notin> set es"
  shows "mSlot (slot c) = latest_set es
         \<and> (mSemaphore (slot c) \<or> 0 < getting c \<longrightarrow> latest_set es \<noteq> None)"
  using assms
proof (induction es arbitrary: c rule: rev_induct)
  case Nil
  then show ?case
    by (auto simp: slot_start_def new_slot_def)
next
  case (snoc e es)
  from snoc.prems(1) obtain c1
    where r: "slot_run es slot_start = Ok c1" and s: "slot_step e c1 = Ok c"
    by (auto simp: slot_run_append split: run.splits)
  from snoc.prems(2) have ne: "e \<noteq> SlotClear" and nc: "SlotClear \<notin> set es"
    by auto
  from snoc.IH [OF r nc] have i1: "mSlot (slot c1) = latest_set es"
    and i2: "mSemaphore (slot c1) \<or> 0 < getting c1 \<longrightarrow> latest_set es \<noteq> None"
    by simp_all
  show ?case
    using slot_step_latest [OF s ne i1 i2] .
qed

text \<open>
  With \<^verbatim>\<open>clear()\<close> among the steps the slot is empty or holds the value of the last
  \<^verbatim>\<open>set\<close>.
\<close>

lemma slot_step_stored:
  assumes "slot_step e c = Ok c'"
    and "mSlot (slot c) = None \<or> mSlot (slot c) = latest_set es"
  shows "mSlot (slot c') = None \<or> mSlot (slot c') = latest_set (es @ [e])"
  using assms
  by (cases e)
     (auto simp: latest_set_snoc slot_set_def slot_clear_def binary_semaphore_defs Let_def
      split: if_splits option.splits prod.splits)

lemma slot_run_stored:
  assumes "slot_run es slot_start = Ok c"
  shows "mSlot (slot c) = None \<or> mSlot (slot c) = latest_set es"
  using assms
proof (induction es arbitrary: c rule: rev_induct)
  case Nil
  then show ?case
    by (auto simp: slot_start_def new_slot_def)
next
  case (snoc e es)
  from snoc.prems obtain c1
    where r: "slot_run es slot_start = Ok c1" and s: "slot_step e c1 = Ok c"
    by (auto simp: slot_run_append split: run.splits)
  show ?case
    using slot_step_stored [OF s snoc.IH [OF r]] .
qed

text \<open>
  The steps of \<^verbatim>\<open>get\<close> leave the stored value alone, so after a \<^verbatim>\<open>set(v)\<close> followed
  only by steps of \<^verbatim>\<open>get\<close> the slot holds \<open>v\<close>, and after a \<^verbatim>\<open>clear()\<close> followed only
  by steps of \<^verbatim>\<open>get\<close> it is empty.
\<close>

lemma slot_step_get_keeps_value:
  assumes "slot_step e c = Ok c'" and "is_get_step e"
  shows "mSlot (slot c') = mSlot (slot c)"
  using assms
  by (cases e) (auto simp: binary_semaphore_defs Let_def split: if_splits option.splits)

lemma slot_run_gets_keep_value:
  assumes "slot_run es c = Ok c'" and "list_all is_get_step es"
  shows "mSlot (slot c') = mSlot (slot c)"
  using assms
proof (induction es arbitrary: c)
  case Nil
  then show ?case by simp
next
  case (Cons e es)
  from Cons.prems(1) obtain c1
    where s: "slot_step e c = Ok c1" and r: "slot_run es c1 = Ok c'"
    by (auto split: run.splits)
  from Cons.prems(2) have g: "is_get_step e" and gs: "list_all is_get_step es"
    by simp_all
  from Cons.IH [OF r gs] slot_step_get_keeps_value [OF s g] show ?case
    by simp
qed

lemma slot_run_after_set:
  assumes "slot_run (es1 @ Set v # es2) c0 = Ok c" and "list_all is_get_step es2"
  shows "mSlot (slot c) = Some v"
proof -
  from assms(1) obtain c1
    where "slot_run es1 c0 = Ok c1"
      and r: "slot_run es2 (c1\<lparr>slot := snd (slot_set v (slot c1))\<rparr>) = Ok c"
    by (auto simp: slot_run_append split: run.splits)
  from slot_run_gets_keep_value [OF r assms(2)] show ?thesis
    by (simp add: slot_set_effect)
qed

lemma slot_run_after_clear:
  assumes "slot_run (es1 @ SlotClear # es2) c0 = Ok c" and "list_all is_get_step es2"
  shows "mSlot (slot c) = None"
proof -
  from assms(1) obtain c1
    where "slot_run es1 c0 = Ok c1"
      and r: "slot_run es2 (c1\<lparr>slot := slot_clear (slot c1)\<rparr>) = Ok c"
    by (auto simp: slot_run_append split: run.splits)
  from slot_run_gets_keep_value [OF r assms(2)] show ?thesis
    by (simp add: slot_clear_def)
qed

section \<open>The claims\<close>

text \<open>
  C1. Claim: in every execution in which the semaphore wait of a \<^verbatim>\<open>pop\<close> succeeds, the
  deque is non-empty when \<^verbatim>\<open>pop\<close> takes the mutex. The comment in \<^verbatim>\<open>pop\<close> relies on it
  (``There is no need to check if the queue is empty thankfully to the semaphore''),
  but \<^verbatim>\<open>clear()\<close> empties the deque and leaves the count: after \<^verbatim>\<open>push(1); clear();\<close> the
  wait of \<^verbatim>\<open>pop()\<close> succeeds and \<^verbatim>\<open>mQueue.front()\<close> is called on an empty deque, in the
  schedule of steps and in the call run alone. (Lemma \<open>no_clear_front_safe\<close> is the
  guarantee for the executions without \<^verbatim>\<open>clear()\<close>.)
\<close>

theorem pop_after_clear_finds_empty_deque:
  "queue_run T [Push (1::int) False, Clear, PopWait (- 1)] queue_start
     = Ok \<lparr>shared = \<lparr>mQueue = [], mQueueSemaphore = 0\<rparr>, woken = 1, returned = []\<rparr>
   \<and> queue_run T [Push (1::int) False, Clear, PopWait (- 1), PopLocked] queue_start
     = Fault FrontOfEmpty
   \<and> fst (pop (- 1) (clear (push (1::int) False new_queue))) = Faulted FrontOfEmpty"
  by (simp add: queue_start_def new_queue_def push_def clear_def pop_def pop_finish_def
      pop_locked_def semaphore_defs Let_def)



text \<open>
  C3. Claim: on a queue made non-empty by pushes, \<^verbatim>\<open>clear()\<close> followed by \<^verbatim>\<open>pop\<close> with a
  short positive timeout returns no value. The code does not: \<^verbatim>\<open>clear()\<close> leaves the
  count that the pushes posted, so \<^verbatim>\<open>wait_for\<close> succeeds at once and \<^verbatim>\<open>pop\<close> goes on
  to \<^verbatim>\<open>front()\<close> of the empty deque. Evaluated at \<^verbatim>\<open>push(1); clear(); pop(10)\<close>, and
  after two pushes, where the second \<^verbatim>\<open>pop(10)\<close> does the same.
\<close>

theorem timed_pop_after_clear_faults:
  "pop 10 (clear (push (1::int) False new_queue))
     = (Faulted FrontOfEmpty, \<lparr>mQueue = [], mQueueSemaphore = 0\<rparr>)
   \<and> pop 10 (clear (push 2 True (push (1::int) False new_queue)))
     = (Faulted FrontOfEmpty, \<lparr>mQueue = [], mQueueSemaphore = 1\<rparr>)
   \<and> fst (pop 10 (clear (push (1::int) False new_queue))) \<noteq> Returned None"
  by (simp add: new_queue_def push_def clear_def pop_def pop_finish_def pop_locked_def
      semaphore_defs Let_def word_sless_alt)

text \<open>
  C4. From a new queue, \<^verbatim>\<open>push(1)\<close>, \<^verbatim>\<open>push(2)\<close>, \<^verbatim>\<open>push(3, true)\<close> and three calls of
  \<^verbatim>\<open>pop()\<close> (default timeout \<open>-1\<close>) return 3, 1, 2 in that order and leave the queue
  new. Lemmas \<open>push_back\<close>, \<open>push_front\<close> and \<open>pop_counts\<close> are the general facts: a
  push appends, or prepends when \<^verbatim>\<open>front\<close> is true, and a pop that returns a value has
  removed the front element.
\<close>

theorem push_front_scenario:
  "pop (- 1) (push (3::int) True (push 2 False (push 1 False new_queue)))
     = (Returned (Some 3), \<lparr>mQueue = [1, 2], mQueueSemaphore = 2\<rparr>)
   \<and> pop (- 1) \<lparr>mQueue = [1, 2::int], mQueueSemaphore = 2\<rparr>
     = (Returned (Some 1), \<lparr>mQueue = [2], mQueueSemaphore = 1\<rparr>)
   \<and> pop (- 1) \<lparr>mQueue = [2::int], mQueueSemaphore = 1\<rparr>
     = (Returned (Some 2), new_queue)
   \<and> queue_run T
        [Push (1::int) False, Push 2 False, Push 3 True,
         PopWait (- 1), PopLocked, PopWait (- 1), PopLocked, PopWait (- 1), PopLocked]
        queue_start
     = Ok \<lparr>shared = new_queue, woken = 0, returned = [Some 3, Some 1, Some 2]\<rparr>"
  by (simp add: queue_start_def new_queue_def push_def pop_def pop_finish_def pop_locked_def
      semaphore_defs Let_def)

text \<open>
  C5. A call \<^verbatim>\<open>pop(timeout_ms)\<close> with \<^verbatim>\<open>timeout_ms > 0\<close> whose wait finds no signal
  returns \<^verbatim>\<open>std::nullopt\<close> and leaves the count and the deque as they were, in the call
  run alone and as a step among other threads. A call with \<^verbatim>\<open>timeout_ms <= 0\<close> never
  returns \<^verbatim>\<open>std::nullopt\<close>: without a signal it stays in \<^verbatim>\<open>wait()\<close> (run alone it is
  blocked for good, among other threads its wait step cannot happen while the count is
  zero).
\<close>

theorem pop_timeout:
  "(0 <s t \<and> mQueueSemaphore q = 0 \<longrightarrow> pop t q = (Returned None, q))
   \<and> (0 <s t \<and> mQueueSemaphore (shared c) = 0 \<longrightarrow>
        queue_step T (PopWait t) c = Ok (c\<lparr>returned := returned c @ [None]\<rparr>))
   \<and> (\<not> 0 <s t \<longrightarrow> fst (pop t q) \<noteq> Returned None)
   \<and> (\<not> 0 <s t \<and> mQueueSemaphore q = 0 \<longrightarrow> pop t q = (Blocked, q))
   \<and> (\<not> 0 <s t \<and> mQueueSemaphore (shared c) = 0 \<longrightarrow>
        queue_step T (PopWait t) c = Disabled)"
  by (auto simp: pop_def pop_finish_def pop_locked_def semaphore_defs Let_def
      split: list.splits)

theorem pop_timeout_witness:
  "pop 1500 (new_queue :: int BlockingQueue) = (Returned None, new_queue)
   \<and> queue_step \<lparr>to_const_iterator = None, value_initialized = 0\<rparr> (PopWait 1500)
         (queue_start :: int queue_threads)
       = Ok \<lparr>shared = new_queue, woken = 0, returned = [None]\<rparr>
   \<and> fst (pop 0 (push (7::int) False new_queue)) \<noteq> Returned None
   \<and> pop 0 (new_queue :: int BlockingQueue) = (Blocked, new_queue)
   \<and> pop (- 1) (new_queue :: int BlockingQueue) = (Blocked, new_queue)
   \<and> queue_step \<lparr>to_const_iterator = None, value_initialized = 0\<rparr> (PopWait (- 1))
         (queue_start :: int queue_threads)
       = Disabled"
proof -
  let ?T = "\<lparr>to_const_iterator = None, value_initialized = 0::int\<rparr>"
  let ?q = "new_queue :: int BlockingQueue"
  show ?thesis
    using pop_timeout [of 1500 ?q queue_start ?T]
      pop_timeout [of 0 "push (7::int) False new_queue" queue_start ?T]
      pop_timeout [of 0 ?q queue_start ?T]
      pop_timeout [of "- 1" ?q queue_start ?T]
    by (simp add: new_queue_def queue_start_def word_sless_alt)
qed

text \<open>
  C6. Claim: \<^verbatim>\<open>emplace(v)\<close> inserts one element equal to \<open>v\<close> at the back, by move, and
  posts once; the comment of \<^verbatim>\<open>emplace\<close> says ``Moves the given value!''. The body calls
  \<^verbatim>\<open>mQueue.emplace(element)\<close>, where \<^verbatim>\<open>std::deque\<close> has \<^verbatim>\<open>emplace_back\<close> for that, and
  passes the named reference \<^verbatim>\<open>element\<close> without \<^verbatim>\<open>std::move\<close>. For an element type
  that does not convert to a deque position (as \<^verbatim>\<open>uint64_t\<close>) the call has no viable
  overload, nothing is inserted and nothing is posted. For a type that does convert,
  the new element is \<^verbatim>\<open>T()\<close> and is inserted before the position that \<open>v\<close> converts
  to: below \<open>v = 1\<close> on the deque \<open>[7, 8]\<close> gives \<open>[7, 0, 8]\<close>, where \<^verbatim>\<open>push\<close> gives
  \<open>[7, 8, 1]\<close>.
\<close>

theorem emplace_is_not_push_back:
  "emplace \<lparr>to_const_iterator = None, value_initialized = 0\<rparr> (42::nat) new_queue
     = Inl NoMatchingCall
   \<and> emplace \<lparr>to_const_iterator = Some (\<lambda>p. p), value_initialized = 0\<rparr> (1::nat)
        (push 8 False (push 7 False new_queue))
     = Inr \<lparr>mQueue = [7, 0, 8], mQueueSemaphore = 3\<rparr>
   \<and> push (1::nat) False (push 8 False (push 7 False new_queue))
     = \<lparr>mQueue = [7, 8, 1], mQueueSemaphore = 3\<rparr>"
  by (simp add: emplace_def deque_emplace_def new_queue_def push_def semaphore_defs Let_def)

text \<open>
  C7. \<^verbatim>\<open>set(v)\<close> stores \<open>v\<close> over whatever the slot held, leaves the semaphore signaled
  and returns true exactly when the semaphore was unsignaled before the call. On a new
  slot \<^verbatim>\<open>set(10)\<close> returns true, a following \<^verbatim>\<open>set(20)\<close> returns false, and a
  \<^verbatim>\<open>get\<close> with any timeout then returns 20.
\<close>

theorem set_reports_transition:
  "slot_set v s = (\<not> mSemaphore s, \<lparr>mSlot = Some v, mSemaphore = True\<rparr>)
   \<and> fst (slot_set v s) = (\<not> mSemaphore s \<and> mSemaphore (snd (slot_set v s)))
   \<and> fst (slot_set (10::int) new_slot) = True
   \<and> fst (slot_set 20 (snd (slot_set (10::int) new_slot))) = False
   \<and> fst (slot_get t (snd (slot_set 20 (snd (slot_set (10::int) new_slot)))))
       = Returned (Some 20)"
  by (simp add: slot_set_def slot_get_def get_locked_def new_slot_def
      binary_semaphore_defs Let_def)

text \<open>
  C8. Claim: a successful \<^verbatim>\<open>get\<close> returns the value of the most recent completed
  \<^verbatim>\<open>set\<close>. As stated it fails when a \<^verbatim>\<open>clear()\<close> follows that \<^verbatim>\<open>set\<close>: after
  \<^verbatim>\<open>set(10); clear();\<close> the wait of \<^verbatim>\<open>get()\<close> succeeds on the signal that \<^verbatim>\<open>clear()\<close>
  left pending, and \<^verbatim>\<open>get\<close> returns \<^verbatim>\<open>std::nullopt\<close>, not 10.
\<close>

theorem get_after_clear_is_not_latest_set:
  "slot_run ([Set (10::int), SlotClear, GetWait (- 1)] @ [GetLocked]) slot_start
     = Ok \<lparr>slot = \<lparr>mSlot = None, mSemaphore = False\<rparr>, getting = 0, got = [None]\<rparr>
   \<and> latest_set [Set (10::int), SlotClear, GetWait (- 1)] = Some 10
   \<and> last [None :: int option] \<noteq> latest_set [Set (10::int), SlotClear, GetWait (- 1)]
   \<and> fst (slot_get (- 1) (slot_clear (snd (slot_set (10::int) new_slot)))) = Returned None
   \<and> fst (slot_get (- 1) (slot_clear (snd (slot_set (10::int) new_slot))))
       \<noteq> Returned (Some 10)"
  by (simp add: slot_start_def new_slot_def slot_set_def slot_clear_def slot_get_def
      get_locked_def binary_semaphore_defs Let_def)

text \<open>
  C8, amended. In every schedule of steps on a new slot, a call of \<^verbatim>\<open>get\<close> whose wait
  has succeeded returns what the slot holds when it reads it:
  \<^item> nothing, or the value of the last \<^verbatim>\<open>set\<close> before that read, never an older value;
  \<^item> after \<^verbatim>\<open>set(v)\<close> it returns \<open>v\<close>, unless a later \<^verbatim>\<open>set\<close> or a later \<^verbatim>\<open>clear()\<close>
    came before the read (only steps of calls of \<^verbatim>\<open>get\<close> lie between that \<^verbatim>\<open>set\<close> and
    the read), whether its wait ended before or after other calls of \<^verbatim>\<open>set\<close> (a
    pending \<^verbatim>\<open>get\<close> is one whose wait step comes after the \<^verbatim>\<open>set\<close> that releases it);
  \<^item> after a \<^verbatim>\<open>clear()\<close> with no later \<^verbatim>\<open>set\<close> before the read it returns nothing;
  \<^item> when the schedule has no \<^verbatim>\<open>clear\<close> at all, it returns the value of the last
    \<^verbatim>\<open>set\<close>, and there is one.
  Run alone: \<^verbatim>\<open>get\<close> after \<^verbatim>\<open>set(v)\<close> returns \<open>v\<close>, and after \<^verbatim>\<open>set(v); set(v2)\<close> it
  returns \<open>v2\<close>.
\<close>

theorem get_returns_latest_set:
  fixes c :: "'a slot_threads" and s :: "'a BlockingSlot"
  assumes "slot_run (es @ [GetLocked]) slot_start = Ok c"
  shows "(last (got c) = None \<or> last (got c) = latest_set es)
         \<and> (es = es1 @ Set w # es2 \<and> list_all is_get_step es2 \<longrightarrow> last (got c) = Some w)
         \<and> (es = es1 @ SlotClear # es2 \<and> list_all is_get_step es2 \<longrightarrow> last (got c) = None)
         \<and> (SlotClear \<notin> set es \<longrightarrow> last (got c) = latest_set es \<and> latest_set es \<noteq> None)
         \<and> fst (slot_get t (snd (slot_set v s))) = Returned (Some v)
         \<and> fst (slot_get t (snd (slot_set v2 (snd (slot_set v s))))) = Returned (Some v2)"
proof -
  from assms obtain c1
    where r: "slot_run es slot_start = Ok c1" and s: "slot_step GetLocked c1 = Ok c"
    by (auto simp: slot_run_append split: run.splits)
  from s have g: "0 < getting c1" and l: "last (got c) = mSlot (slot c1)"
    by (auto simp: get_locked_def split: if_splits)
  have any: "last (got c) = None \<or> last (got c) = latest_set es"
    using slot_run_stored [OF r] l by simp
  have after_set: "last (got c) = Some w"
    if "es = es1 @ Set w # es2" and "list_all is_get_step es2"
    using slot_run_after_set [OF r [unfolded that(1)] that(2)] l by simp
  have after_clear: "last (got c) = None"
    if "es = es1 @ SlotClear # es2" and "list_all is_get_step es2"
    using slot_run_after_clear [OF r [unfolded that(1)] that(2)] l by simp
  have no_clear: "last (got c) = latest_set es \<and> latest_set es \<noteq> None"
    if "SlotClear \<notin> set es"
    using slot_run_latest [OF r that] g l by simp
  have alone: "fst (slot_get t (snd (slot_set x s'))) = Returned (Some x)"
    for x and s' :: "'a BlockingSlot"
    by (simp add: slot_set_effect slot_get_def get_locked_def binary_semaphore_defs)
  from any after_set after_clear no_clear alone show ?thesis
    by simp
qed

theorem get_returns_latest_set_witness:
  "slot_run ([Set (10::int), GetWait (- 1), Set 20, Set 30, GetWait 0] @ [GetLocked]) slot_start
     = Ok \<lparr>slot = \<lparr>mSlot = Some 30, mSemaphore = False\<rparr>, getting = 1, got = [Some 30]\<rparr>
   \<and> SlotClear \<notin> set [Set (10::int), GetWait (- 1), Set 20, Set 30, GetWait 0]
   \<and> latest_set [Set (10::int), GetWait (- 1), Set 20, Set 30, GetWait 0] = Some 30
   \<and> [Set (10::int), GetWait (- 1), Set 20, Set 30, GetWait 0]
       = [Set 10, GetWait (- 1), Set 20] @ Set 30 # [GetWait 0]
   \<and> list_all is_get_step [GetWait 0 :: int slot_event]
   \<and> slot_run ([Set (10::int), Set 20, SlotClear, GetWait 0] @ [GetLocked]) slot_start
     = Ok \<lparr>slot = \<lparr>mSlot = None, mSemaphore = False\<rparr>, getting = 0, got = [None]\<rparr>
   \<and> [Set (10::int), Set 20, SlotClear, GetWait 0] = [Set 10, Set 20] @ SlotClear # [GetWait 0]
   \<and> slot_run ([Set (10::int), SlotClear, Set 20, GetWait 0] @ [GetLocked]) slot_start
     = Ok \<lparr>slot = \<lparr>mSlot = Some 20, mSemaphore = False\<rparr>, getting = 0, got = [Some 20]\<rparr>
   \<and> [Set (10::int), SlotClear, Set 20, GetWait 0] = [Set 10, SlotClear] @ Set 20 # [GetWait 0]
   \<and> fst (slot_get 0 (snd (slot_set 30 (snd (slot_set (20::int) new_slot)))))
       = Returned (Some 30)"
proof -
  let ?es = "[Set (10::int), GetWait (- 1), Set 20, Set 30, GetWait 0]"
  let ?c = "\<lparr>slot = \<lparr>mSlot = Some (30::int), mSemaphore = False\<rparr>, getting = 1,
    got = [Some 30]\<rparr>"
  let ?fs = "[Set (10::int), Set 20, SlotClear, GetWait 0]"
  let ?d = "\<lparr>slot = \<lparr>mSlot = None :: int option, mSemaphore = False\<rparr>, getting = 0,
    got = [None]\<rparr>"
  let ?gs = "[Set (10::int), SlotClear, Set 20, GetWait 0]"
  let ?e = "\<lparr>slot = \<lparr>mSlot = Some (20::int), mSemaphore = False\<rparr>, getting = 0,
    got = [Some 20]\<rparr>"
  let ?s = "snd (slot_set (20::int) new_slot)"
  have r: "slot_run (?es @ [GetLocked]) slot_start = Ok ?c"
    by (simp add: slot_start_def new_slot_def slot_set_def get_locked_def
        binary_semaphore_defs Let_def)
  have r': "slot_run (?fs @ [GetLocked]) slot_start = Ok ?d"
    by (simp add: slot_start_def new_slot_def slot_set_def slot_clear_def get_locked_def
        binary_semaphore_defs Let_def)
  have r'': "slot_run (?gs @ [GetLocked]) slot_start = Ok ?e"
    by (simp add: slot_start_def new_slot_def slot_set_def slot_clear_def get_locked_def
        binary_semaphore_defs Let_def)
  have n: "SlotClear \<notin> set ?es"
    by simp
  from get_returns_latest_set
         [OF r, of "[Set 10, GetWait (- 1), Set 20]" 30 "[GetWait 0]" 0 30 ?s 30]
    get_returns_latest_set [OF r', of "[Set 10, Set 20]" 0 "[GetWait 0]" 0 30 ?s 30]
    get_returns_latest_set [OF r'', of "[Set 10, SlotClear]" 20 "[GetWait 0]" 0 30 ?s 30]
  show ?thesis
    using r r' r'' n by simp
qed

text \<open>
  C9. \<^verbatim>\<open>get(timeout_ms)\<close> on an unsignaled slot stays blocked exactly when
  \<^verbatim>\<open>timeout_ms < 0\<close>; for every other timeout, zero included, the wait is bounded and
  the call returns \<^verbatim>\<open>std::nullopt\<close> with the slot as it was, in the call run alone and
  as a step among other threads.
\<close>

theorem get_timeout:
  assumes "\<not> mSemaphore s" and "\<not> mSemaphore (slot c)"
  shows "(fst (slot_get t s) = Blocked) = (t <s 0)
         \<and> (\<not> t <s 0 \<longrightarrow> slot_get t s = (Returned None, s))
         \<and> slot_get 0 s = (Returned None, s)
         \<and> (slot_step (GetWait t) c = Disabled) = (t <s 0)
         \<and> (\<not> t <s 0 \<longrightarrow> slot_step (GetWait t) c = Ok (c\<lparr>got := got c @ [None]\<rparr>))"
  using assms
  by (simp add: slot_get_def get_locked_def binary_semaphore_defs Let_def)

theorem get_timeout_witness:
  "\<not> mSemaphore (new_slot :: int BlockingSlot)
   \<and> fst (slot_get (- 1) (new_slot :: int BlockingSlot)) = Blocked
   \<and> slot_get 5 (new_slot :: int BlockingSlot) = (Returned None, new_slot)
   \<and> slot_get 0 (new_slot :: int BlockingSlot) = (Returned None, new_slot)
   \<and> slot_step (GetWait (- 1)) (slot_start :: int slot_threads) = Disabled
   \<and> slot_step (GetWait 0) (slot_start :: int slot_threads)
       = Ok \<lparr>slot = new_slot, getting = 0, got = [None]\<rparr>"
proof -
  let ?s = "new_slot :: int BlockingSlot"
  let ?c = "slot_start :: int slot_threads"
  have u: "\<not> mSemaphore ?s" and u': "\<not> mSemaphore (slot ?c)"
    by (simp_all add: new_slot_def slot_start_def)
  show ?thesis
    using u get_timeout [OF u u', of "- 1"] get_timeout [OF u u', of 5]
      get_timeout [OF u u', of 0]
    by (simp add: new_slot_def slot_start_def word_sless_alt)
qed

text \<open>
  C10. After \<^verbatim>\<open>set(v)\<close> and \<^verbatim>\<open>clear()\<close> with no \<^verbatim>\<open>get\<close> between them the semaphore is
  still signaled and the slot is empty. The next \<^verbatim>\<open>get\<close>, whatever its timeout, does
  not wait and does not time out: its wait step acquires the signal (the call is counted
  in \<open>getting\<close>, and the signal is gone afterwards), and it returns \<^verbatim>\<open>std::nullopt\<close>, the
  value that a timed-out \<^verbatim>\<open>get\<close> on a new slot returns.
\<close>

theorem get_after_set_and_clear:
  "mSemaphore (slot_clear (snd (slot_set v s)))
   \<and> slot_get t (slot_clear (snd (slot_set v s)))
       = (Returned None, \<lparr>mSlot = None, mSemaphore = False\<rparr>)
   \<and> slot_run [Set v, SlotClear, GetWait t] slot_start
       = Ok \<lparr>slot = \<lparr>mSlot = None, mSemaphore = False\<rparr>, getting = 1, got = []\<rparr>
   \<and> slot_run [Set v, SlotClear, GetWait t, GetLocked] slot_start
       = Ok \<lparr>slot = \<lparr>mSlot = None, mSemaphore = False\<rparr>, getting = 0, got = [None]\<rparr>
   \<and> fst (slot_get t (slot_clear (snd (slot_set v s)))) = fst (slot_get 0 new_slot)"
  by (simp add: slot_set_def slot_get_def slot_clear_def get_locked_def new_slot_def
      slot_start_def binary_semaphore_defs Let_def)

end
